theory Spec2Isabelle
  imports Complex_Main "HOL-Library.Word" "HOL-Library.Char_ord" "HOL-Library.List_Lexorder"
begin

unbundle bit_operations_syntax

section \<open>Values, errors and the clock\<close>

text \<open>
  Python values that travel through the client: request parameters, decoded JSON bodies and
  cached payloads. \<open>PNone\<close> is Python's \<open>None\<close>. Floats do not occur in parameters or
  keys and are left out. A dict is an association list in insertion order, its keys distinct.
  Strings are lists of code points below 256.
\<close>

datatype pyval =
    PNone
  | PBool bool
  | PInt int
  | PStr string
  | PList "pyval list"
  | PDict "(string \<times> pyval) list"

type_synonym pydict = "(string \<times> pyval) list"

text \<open>
  The exceptions of \<open>exceptions.py\<close>, and the built-in exceptions that the modelled code can
  raise: \<open>KeyError\<close> (\<open>popitem\<close> on an empty \<open>OrderedDict\<close>), \<open>IndexError\<close>
  (\<open>self.calls[0]\<close> on an empty list) and \<open>ValueError\<close> (\<open>time.sleep\<close> of a negative
  duration, \<open>Config.validate\<close>).
\<close>

datatype error =
    APIKeyMissingError
  | RateLimitError
  | ResourceNotFoundError string
  | InvalidParameterError string string
  | APIError int string
  | NetworkError string
  | PyKeyError string
  | PyIndexError
  | PyValueError string

text \<open>
  Time is a real number of seconds (the idealisation of the floats of \<open>time.time()\<close>).
  The world holds the clock and the trace of observable effects: every sleep with its
  duration and every HTTP GET with its URL and parameters. A sleep advances the clock by
  exactly its duration; the transport says how long each GET took; all other statements
  take no time.
\<close>

datatype event = EvSleep real | EvGet string pydict

record world =
  clock :: real
  trace :: "event list"

definition time_sleep :: "real \<Rightarrow> world \<Rightarrow> error + world" where
  "time_sleep d w =
     (if d < 0 then Inl (PyValueError ''sleep length must be non-negative'')
      else Inr (w\<lparr>clock := clock w + d, trace := trace w @ [EvSleep d]\<rparr>))"

fun is_get :: "event \<Rightarrow> bool" where
  "is_get (EvGet _ _) = True"
| "is_get (EvSleep _) = False"

definition http_calls :: "world \<Rightarrow> nat" where
  "http_calls w = length (filter is_get (trace w))"


section \<open>OrderedDict\<close>

text \<open>
  An \<open>OrderedDict\<close> is an association list with distinct keys; the head is the oldest
  item (the one \<open>popitem(last=False)\<close> removes), the last element the newest.
\<close>

definition od_delete :: "string \<Rightarrow> (string \<times> 'v) list \<Rightarrow> (string \<times> 'v) list" where
  "od_delete k es = filter (\<lambda>kv. fst kv \<noteq> k) es"

definition od_assign :: "string \<Rightarrow> 'v \<Rightarrow> (string \<times> 'v) list \<Rightarrow> (string \<times> 'v) list" where
  "od_assign k v es =
     (if k \<in> fst ` set es then map (\<lambda>kv. if fst kv = k then (k, v) else kv) es
      else es @ [(k, v)])"

definition move_to_end :: "string \<Rightarrow> (string \<times> 'v) list \<Rightarrow> (string \<times> 'v) list" where
  "move_to_end k es =
     (case map_of es k of None \<Rightarrow> es | Some v \<Rightarrow> od_delete k es @ [(k, v)])"

definition popitem_first :: "(string \<times> 'v) list \<Rightarrow> error + (string \<times> 'v) list" where
  "popitem_first es =
     (case es of [] \<Rightarrow> Inl (PyKeyError ''dictionary is empty'') | _ # rest \<Rightarrow> Inr rest)"

section \<open>Library functions used by the cache key\<close>

subsection \<open>Decimal and hexadecimal digits\<close>

fun digit_char :: "nat \<Rightarrow> char" where
  "digit_char n = ''0123456789'' ! (n mod 10)"

fun str_nat :: "nat \<Rightarrow> string" where
  "str_nat n = (if n < 10 then [digit_char n] else str_nat (n div 10) @ [digit_char (n mod 10)])"

declare str_nat.simps [simp del]

definition str_int :: "int \<Rightarrow> string" where
  "str_int i = (if i < 0 then CHR ''-'' # str_nat (nat (- i)) else str_nat (nat i))"

definition hex_digit :: "nat \<Rightarrow> char" where
  "hex_digit n = ''0123456789abcdef'' ! (n mod 16)"

subsection \<open>\<open>json.dumps(obj, sort_keys=True)\<close>\<close>

text \<open>
  Strings are escaped as \<open>ensure_ascii\<close> does: the printable ASCII characters other
  than the quote and the backslash stand for themselves, the quote, the backslash and the
  five named control characters get their two-character escapes, every other code point
  is written \<open>\u00XX\<close>.
\<close>

definition json_escape_char :: "char \<Rightarrow> string" where
  "json_escape_char c =
     (let n = (of_char c :: nat) in
      if n = 0x22 then [CHR 0x5C, CHR 0x22]
      else if n = 0x5C then [CHR 0x5C, CHR 0x5C]
      else if n = 0x08 then [CHR 0x5C, CHR ''b'']
      else if n = 0x0C then [CHR 0x5C, CHR ''f'']
      else if n = 0x0A then [CHR 0x5C, CHR ''n'']
      else if n = 0x0D then [CHR 0x5C, CHR ''r'']
      else if n = 0x09 then [CHR 0x5C, CHR ''t'']
      else if 0x20 \<le> n \<and> n \<le> 0x7E then [c]
      else [CHR 0x5C, CHR ''u'', CHR ''0'', CHR ''0'', hex_digit (n div 16), hex_digit (n mod 16)])"

definition json_str :: "string \<Rightarrow> string" where
  "json_str s = [CHR 0x22] @ concat (map json_escape_char s) @ [CHR 0x22]"

fun join_comma :: "string list \<Rightarrow> string" where
  "join_comma [] = []"
| "join_comma [x] = x"
| "join_comma (x # y # ys) = x @ '', '' @ join_comma (y # ys)"

fun json_dumps :: "pyval \<Rightarrow> string" where
  "json_dumps PNone = ''null''"
| "json_dumps (PBool b) = (if b then ''true'' else ''false'')"
| "json_dumps (PInt i) = str_int i"
| "json_dumps (PStr s) = json_str s"
| "json_dumps (PList xs) = ''['' @ join_comma (map json_dumps xs) @ '']''"
| "json_dumps (PDict kvs) =
     ''{'' @ join_comma (map (\<lambda>kv. json_str (fst kv) @ '': '' @ json_dumps (snd kv))
                            (sort_key fst kvs)) @ ''}''"

subsection \<open>\<open>hashlib.sha256\<close>\<close>

type_synonym w32 = "32 word"

definition rotr :: "nat \<Rightarrow> w32 \<Rightarrow> w32" where
  "rotr n x = (drop_bit n x) OR (push_bit (32 - n) x)"

definition ch :: "w32 \<Rightarrow> w32 \<Rightarrow> w32 \<Rightarrow> w32" where
  "ch x y z = (x AND y) XOR (NOT x AND z)"
definition maj :: "w32 \<Rightarrow> w32 \<Rightarrow> w32 \<Rightarrow> w32" where
  "maj x y z = (x AND y) XOR (x AND z) XOR (y AND z)"
definition bsig0 :: "w32 \<Rightarrow> w32" where "bsig0 x = rotr 2 x XOR rotr 13 x XOR rotr 22 x"
definition bsig1 :: "w32 \<Rightarrow> w32" where "bsig1 x = rotr 6 x XOR rotr 11 x XOR rotr 25 x"
definition ssig0 :: "w32 \<Rightarrow> w32" where "ssig0 x = rotr 7 x XOR rotr 18 x XOR drop_bit 3 x"
definition ssig1 :: "w32 \<Rightarrow> w32" where "ssig1 x = rotr 17 x XOR rotr 19 x XOR drop_bit 10 x"

definition sha_k :: "w32 list" where
  "sha_k = [
   0x428A2F98, 0x71374491, 0xB5C0FBCF, 0xE9B5DBA5, 0x3956C25B, 0x59F111F1, 0x923F82A4, 0xAB1C5ED5,
   0xD807AA98, 0x12835B01, 0x243185BE, 0x550C7DC3, 0x72BE5D74, 0x80DEB1FE, 0x9BDC06A7, 0xC19BF174,
   0xE49B69C1, 0xEFBE4786, 0x0FC19DC6, 0x240CA1CC, 0x2DE92C6F, 0x4A7484AA, 0x5CB0A9DC, 0x76F988DA,
   0x983E5152, 0xA831C66D, 0xB00327C8, 0xBF597FC7, 0xC6E00BF3, 0xD5A79147, 0x06CA6351, 0x14292967,
   0x27B70A85, 0x2E1B2138, 0x4D2C6DFC, 0x53380D13, 0x650A7354, 0x766A0ABB, 0x81C2C92E, 0x92722C85,
   0xA2BFE8A1, 0xA81A664B, 0xC24B8B70, 0xC76C51A3, 0xD192E819, 0xD6990624, 0xF40E3585, 0x106AA070,
   0x19A4C116, 0x1E376C08, 0x2748774C, 0x34B0BCB5, 0x391C0CB3, 0x4ED8AA4A, 0x5B9CCA4F, 0x682E6FF3,
   0x748F82EE, 0x78A5636F, 0x84C87814, 0x8CC70208, 0x90BEFFFA, 0xA4506CEB, 0xBEF9A3F7, 0xC67178F2]"

definition sha_h0 :: "w32 list" where
  "sha_h0 = [0x6A09E667, 0xBB67AE85, 0x3C6EF372, 0xA54FF53A, 0x510E527F, 0x9B05688C, 0x1F83D9AB, 0x5BE0CD19]"

text \<open>The message schedule, newest word first: \<open>r ! 0\<close> is \<open>W(t-1)\<close>.\<close>

fun schedule :: "nat \<Rightarrow> w32 list \<Rightarrow> w32 list" where
  "schedule 0 r = r"
| "schedule (Suc n) r = schedule n ((ssig1 (r ! 1) + r ! 6 + ssig0 (r ! 14) + r ! 15) # r)"

fun sha_round :: "w32 list \<Rightarrow> (w32 \<times> w32) \<Rightarrow> w32 list" where
  "sha_round [a, b, c, d, e, f, g, h] (k, w) =
     (let t1 = h + bsig1 e + ch e f g + k + w;
          t2 = bsig0 a + maj a b c
      in [t1 + t2, a, b, c, d + t1, e, f, g])"
| "sha_round s _ = s"

fun be_words :: "8 word list \<Rightarrow> w32 list" where
  "be_words (a # b # c # d # rest) =
     (push_bit 24 (ucast a) OR push_bit 16 (ucast b) OR push_bit 8 (ucast c) OR ucast d) # be_words rest"
| "be_words _ = []"

definition compress :: "w32 list \<Rightarrow> 8 word list \<Rightarrow> w32 list" where
  "compress hs block =
     (let ws = rev (schedule 48 (rev (be_words block)))
      in map2 (+) hs (foldl sha_round hs (zip sha_k ws)))"

fun chunks :: "nat \<Rightarrow> 'a list \<Rightarrow> 'a list list" where
  "chunks 0 bs = []"
| "chunks (Suc n) bs = take 64 bs # chunks n (drop 64 bs)"

definition sha_pad :: "8 word list \<Rightarrow> 8 word list" where
  "sha_pad m =
     (let l = length m;
          k = (119 - l mod 64) mod 64;
          bits = (word_of_nat (8 * l) :: 64 word)
      in m @ [0x80] @ replicate k 0 @ map (\<lambda>i. ucast (drop_bit (8 * i) bits)) (rev [0..<8]))"

definition sha256 :: "8 word list \<Rightarrow> w32 list" where
  "sha256 m = (let p = sha_pad m in foldl compress sha_h0 (chunks (length p div 64) p))"

definition hex_word :: "w32 \<Rightarrow> string" where
  "hex_word x = map (\<lambda>i. hex_digit (unat (drop_bit (4 * i) x AND 0xf))) (rev [0..<8])"

definition hexdigest :: "w32 list \<Rightarrow> string" where
  "hexdigest hs = concat (map hex_word hs)"

definition encode :: "string \<Rightarrow> 8 word list" where
  "encode s = map (\<lambda>c. word_of_nat (of_char c)) s"


section \<open>cache.py\<close>

text \<open>
  \<open>Cache._make_key(*args, **kwargs)\<close>. \<open>kwargs\<close> is a dict, so its keys are distinct and
  \<open>sorted(kwargs.items())\<close> orders the items by key without ever comparing two values.
  The tuples are serialised as JSON arrays.
\<close>

definition key_str :: "pyval list \<Rightarrow> pydict \<Rightarrow> string" where
  "key_str args kwargs =
     json_dumps (PDict [(''args'', PList args),
                        (''kwargs'', PList (map (\<lambda>kv. PList [PStr (fst kv), snd kv])
                                               (sort_key fst kwargs)))])"

definition make_key :: "pyval list \<Rightarrow> pydict \<Rightarrow> string" where
  "make_key args kwargs = hexdigest (sha256 (encode (key_str args kwargs)))"

record cache_entry =
  entry_value :: pyval
  expiry :: real

definition CacheEntry :: "pyval \<Rightarrow> int \<Rightarrow> real \<Rightarrow> cache_entry" where
  "CacheEntry v ttl now = \<lparr>entry_value = v, expiry = now + real_of_int ttl\<rparr>"

definition is_expired :: "cache_entry \<Rightarrow> real \<Rightarrow> bool" where
  "is_expired e now = (now > expiry e)"

record cache =
  max_size :: int
  default_ttl :: int
  entries :: "(string \<times> cache_entry) list"
  hits :: int
  misses :: int

definition new_cache :: "int \<Rightarrow> int \<Rightarrow> cache" where
  "new_cache ms ttl = \<lparr>max_size = ms, default_ttl = ttl, entries = [], hits = 0, misses = 0\<rparr>"

text \<open>
  \<open>Cache.get\<close>: the returned Python value (\<open>PNone\<close> when the key is absent or expired)
  and the cache after the call. \<open>now\<close> is the reading of \<open>time.time()\<close> in \<open>is_expired\<close>.
\<close>

definition cache_get :: "cache \<Rightarrow> string \<Rightarrow> real \<Rightarrow> pyval \<times> cache" where
  "cache_get c key now =
     (case map_of (entries c) key of
        Some entry \<Rightarrow>
          if is_expired entry now
          then (PNone, c\<lparr>entries := od_delete key (entries c), misses := misses c + 1\<rparr>)
          else (entry_value entry,
                c\<lparr>entries := move_to_end key (entries c), hits := hits c + 1\<rparr>)
      | None \<Rightarrow> (PNone, c\<lparr>misses := misses c + 1\<rparr>))"

text \<open>\<open>ttl or self.default_ttl\<close>: \<open>None\<close> and \<open>0\<close> are both falsy.\<close>

definition ttl_or_default :: "int option \<Rightarrow> int \<Rightarrow> int" where
  "ttl_or_default ttl d = (case ttl of None \<Rightarrow> d | Some t \<Rightarrow> if t = 0 then d else t)"

text \<open>
  \<open>Cache.set\<close>. The only raise is \<open>popitem\<close> on an empty dict, before any mutation, so
  an error leaves the cache as it was.
\<close>

definition cache_set :: "cache \<Rightarrow> string \<Rightarrow> pyval \<Rightarrow> int option \<Rightarrow> real \<Rightarrow> error + cache" where
  "cache_set c key v ttl now =
     (case (if key \<in> fst ` set (entries c) then Inr (od_delete key (entries c))
            else if int (length (entries c)) \<ge> max_size c then popitem_first (entries c)
            else Inr (entries c)) of
        Inl e \<Rightarrow> Inl e
      | Inr es \<Rightarrow>
          Inr (c\<lparr>entries := od_assign key (CacheEntry v (ttl_or_default ttl (default_ttl c)) now) es\<rparr>))"

definition cache_clear :: "cache \<Rightarrow> cache" where
  "cache_clear c = c\<lparr>entries := [], hits := 0, misses := 0\<rparr>"






section \<open>api_client.py: RateLimiter\<close>

record rate_limiter =
  max_calls :: int
  period :: int
  calls :: "real list"

definition new_rate_limiter :: "int \<Rightarrow> int \<Rightarrow> rate_limiter" where
  "new_rate_limiter mc p = \<lparr>max_calls = mc, period = p, calls = []\<rparr>"

text \<open>
  \<open>RateLimiter.wait_if_needed\<close>: the exception raised, if any, the limiter and the world
  after the call. The timestamp appended last is the instant at which the call is admitted.
\<close>

definition wait_if_needed :: "rate_limiter \<Rightarrow> world \<Rightarrow> error option \<times> rate_limiter \<times> world" where
  "wait_if_needed rl w =
     (let now = clock w;
          cs = filter (\<lambda>call_time. now - call_time < real_of_int (period rl)) (calls rl)
      in if int (length cs) \<ge> max_calls rl then
           (case cs of
              [] \<Rightarrow> (Some PyIndexError, rl\<lparr>calls := cs\<rparr>, w)
            | c0 # _ \<Rightarrow>
                (let sleep_time = real_of_int (period rl) - (now - c0)
                 in if sleep_time > 0 then
                      (case time_sleep sleep_time w of
                         Inl e \<Rightarrow> (Some e, rl\<lparr>calls := cs\<rparr>, w)
                       | Inr w' \<Rightarrow> (None, rl\<lparr>calls := [] @ [clock w']\<rparr>, w'))
                    else (None, rl\<lparr>calls := cs @ [clock w]\<rparr>, w)))
         else (None, rl\<lparr>calls := cs @ [clock w]\<rparr>, w))"



section \<open>config.py\<close>

record config =
  api_key :: "string option"
  base_url :: string
  timeout :: int
  rate_limit_calls :: int
  rate_limit_period :: int
  cache_enabled :: bool
  cache_ttl :: int
  cache_max_size :: int
  log_level :: string
  log_format :: string
  max_retries :: int
  retry_delay :: real
  backoff_factor :: real
  default_limit :: int
  max_limit :: int

definition default_config :: config where
  "default_config =
     \<lparr>api_key = None, base_url = ''https://api.data.gov.in'', timeout = 30,
      rate_limit_calls = 100, rate_limit_period = 60,
      cache_enabled = True, cache_ttl = 3600, cache_max_size = 1000,
      log_level = ''INFO'',
      log_format = ''%(asctime)s - %(name)s - %(levelname)s - %(message)s'',
      max_retries = 3, retry_delay = 1, backoff_factor = 2,
      default_limit = 10, max_limit = 100\<rparr>"

definition validate :: "config \<Rightarrow> error option" where
  "validate cfg =
     (if timeout cfg \<le> 0 then Some (PyValueError ''timeout must be positive'')
      else if rate_limit_calls cfg \<le> 0 then Some (PyValueError ''rate_limit_calls must be positive'')
      else if rate_limit_period cfg \<le> 0 then Some (PyValueError ''rate_limit_period must be positive'')
      else if cache_ttl cfg < 0 then Some (PyValueError ''cache_ttl must be non-negative'')
      else if max_retries cfg < 0 then Some (PyValueError ''max_retries must be non-negative'')
      else if default_limit cfg \<le> 0 \<or> default_limit cfg > max_limit cfg
        then Some (PyValueError (''default_limit must be between 1 and '' @ str_int (max_limit cfg)))
      else None)"

section \<open>api_client.py: DataGovInClient\<close>

text \<open>
  The HTTP collaborator (\<open>httpx\<close>) is injected. One call of \<open>client.get\<close> either raises
  \<open>httpx.TimeoutException\<close>, \<open>httpx.NetworkError\<close> or some other exception (each with
  its \<open>str\<close>), or returns a response. A response carries its status code and text, what
  \<open>raise_for_status()\<close> does (\<open>Some m\<close>: it raises an exception whose \<open>str\<close> is \<open>m\<close>)
  and what \<open>json()\<close> does (\<open>Inl m\<close>: decoding raises; \<open>Inr v\<close>: the decoded body).
\<close>

record response =
  status_code :: int
  body_text :: string
  raise_for_status :: "string option"
  json_body :: "string + pyval"

datatype http_outcome =
    TimeoutException string
  | HttpNetworkError string
  | OtherException string
  | Response response

text \<open>
  The environment: \<open>urljoin\<close> of \<open>urllib.parse\<close>, and the transport, which answers the
  \<open>n\<close>-th GET of the run (counted from 0) for a URL and parameters with the time the call
  took and its outcome.
\<close>

record http_env =
  urljoin :: "string \<Rightarrow> string \<Rightarrow> string"
  http_get :: "nat \<Rightarrow> string \<Rightarrow> pydict \<Rightarrow> real \<times> http_outcome"

record client =
  config :: config
  cache :: "cache option"
  rate_limiter :: rate_limiter

text \<open>\<open>DataGovInClient.__init__\<close>: \<open>validate\<close> may raise.\<close>

definition new_client :: "config \<Rightarrow> error + client" where
  "new_client cfg =
     (case validate cfg of
        Some e \<Rightarrow> Inl e
      | None \<Rightarrow>
          Inr \<lparr>config = cfg,
               cache = (if cache_enabled cfg
                        then Some (new_cache (cache_max_size cfg) (cache_ttl cfg)) else None),
               rate_limiter = new_rate_limiter (rate_limit_calls cfg) (rate_limit_period cfg)\<rparr>)"

definition build_url :: "http_env \<Rightarrow> client \<Rightarrow> string \<Rightarrow> string" where
  "build_url env cl resource_id = urljoin env (base_url (config cl)) (''/resource/'' @ resource_id)"

definition setdefault :: "string \<Rightarrow> 'v \<Rightarrow> (string \<times> 'v) list \<Rightarrow> (string \<times> 'v) list" where
  "setdefault k v es = (if k \<in> fst ` set es then es else es @ [(k, v)])"

definition client_get :: "http_env \<Rightarrow> string \<Rightarrow> pydict \<Rightarrow> world \<Rightarrow> http_outcome \<times> world" where
  "client_get env url params w =
     (let (dt, out) = http_get env (http_calls w) url params
      in (out, w\<lparr>clock := clock w + dt, trace := trace w @ [EvGet url params]\<rparr>))"

text \<open>\<open>str(e)\<close> for the exceptions of the model (\<open>exceptions.py\<close> and the built-ins).\<close>

fun str_error :: "error \<Rightarrow> string" where
  "str_error APIKeyMissingError =
     ''API key is required. Set DATA_GOV_IN_API_KEY environment variable.''"
| "str_error RateLimitError = ''Rate limit exceeded. Please try again later.''"
| "str_error (ResourceNotFoundError r) = ''Resource '' @ [CHR 0x27] @ r @ [CHR 0x27] @ '' not found''"
| "str_error (InvalidParameterError p m) =
     ''Invalid parameter '' @ [CHR 0x27] @ p @ [CHR 0x27] @ '': '' @ m"
| "str_error (APIError sc m) = ''API Error ('' @ str_int sc @ ''): '' @ m"
| "str_error (NetworkError m) = m"
| "str_error (PyKeyError m) = [CHR 0x27] @ m @ [CHR 0x27]"
| "str_error PyIndexError = ''list index out of range''"
| "str_error (PyValueError m) = m"

text \<open>
  One pass through the body of the \<open>for\<close> loop of \<open>_make_request\<close>, up to the end of the
  \<open>except\<close> clauses: the request either returns the payload, raises a typed error that is
  not retried, or records \<open>last_exception\<close> and falls through to the back-off.
  \<open>cache_key\<close> is \<open>Some\<close> exactly when \<open>use_cache and self.cache\<close> holds.
\<close>

datatype attempt_result = Return pyval | Raise error | Retry error

definition attempt_once ::
  "http_env \<Rightarrow> client \<Rightarrow> string \<Rightarrow> string \<Rightarrow> pydict \<Rightarrow> string option \<Rightarrow> world
   \<Rightarrow> attempt_result \<times> client \<times> world" where
  "attempt_once env cl resource_id url params cache_key w =
     (let (out, w1) = client_get env url params w in
      case out of
        TimeoutException e \<Rightarrow> (Retry (NetworkError (''Request timeout: '' @ e)), cl, w1)
      | HttpNetworkError e \<Rightarrow> (Retry (NetworkError (''Network error: '' @ e)), cl, w1)
      | OtherException e \<Rightarrow> (Retry (APIError 500 (''Unexpected error: '' @ e)), cl, w1)
      | Response r \<Rightarrow>
          if status_code r = 404 then (Raise (ResourceNotFoundError resource_id), cl, w1)
          else if status_code r = 429 then (Raise RateLimitError, cl, w1)
          else if status_code r \<ge> 400 then (Raise (APIError (status_code r) (body_text r)), cl, w1)
          else
            (case raise_for_status r of
               Some m \<Rightarrow> (Retry (APIError 500 (''Unexpected error: '' @ m)), cl, w1)
             | None \<Rightarrow>
                 (case json_body r of
                    Inl m \<Rightarrow> (Retry (APIError 500 (''Unexpected error: '' @ m)), cl, w1)
                  | Inr data \<Rightarrow>
                      (case (cache_key, cache cl) of
                         (Some key, Some c) \<Rightarrow>
                           (case cache_set c key data None (clock w1) of
                              Inl e \<Rightarrow>
                                (Retry (APIError 500 (''Unexpected error: '' @ str_error e)), cl, w1)
                            | Inr c' \<Rightarrow> (Return data, cl\<lparr>cache := Some c'\<rparr>, w1))
                       | _ \<Rightarrow> (Return data, cl, w1)))))"

text \<open>
  The \<open>for attempt in range(max_retries + 1)\<close> loop with the back-off sleep after the
  \<open>except\<close> clauses, and the \<open>raise\<close> after the loop. The sleep is outside the \<open>try\<close>, so
  the \<open>ValueError\<close> of a negative sleep propagates.
\<close>

fun dispatch_loop ::
  "http_env \<Rightarrow> string \<Rightarrow> string \<Rightarrow> pydict \<Rightarrow> string option \<Rightarrow> nat list \<Rightarrow> error option
   \<Rightarrow> client \<Rightarrow> world \<Rightarrow> (error + pyval) \<times> client \<times> world" where
  "dispatch_loop env resource_id url params cache_key [] last_exception cl w =
     (Inl (case last_exception of
             Some e \<Rightarrow> e
           | None \<Rightarrow> NetworkError ''All retry attempts failed''), cl, w)"
| "dispatch_loop env resource_id url params cache_key (attempt # rest) last_exception cl w =
     (case attempt_once env cl resource_id url params cache_key w of
        (Return data, cl1, w1) \<Rightarrow> (Inr data, cl1, w1)
      | (Raise e, cl1, w1) \<Rightarrow> (Inl e, cl1, w1)
      | (Retry e, cl1, w1) \<Rightarrow>
          if int attempt < max_retries (config cl1) then
            (case time_sleep (retry_delay (config cl1) * backoff_factor (config cl1) ^ attempt) w1 of
               Inl err \<Rightarrow> (Inl err, cl1, w1)
             | Inr w2 \<Rightarrow>
                 dispatch_loop env resource_id url params cache_key rest (Some e) cl1 w2)
          else dispatch_loop env resource_id url params cache_key rest (Some e) cl1 w1)"

text \<open>The parameters as sent: the caller's, then \<open>api-key\<close>, then the default \<open>format\<close>.\<close>

definition prepare_params :: "string \<Rightarrow> pydict option \<Rightarrow> pydict" where
  "prepare_params key params =
     setdefault ''format'' (PStr ''json'')
       (od_assign ''api-key'' (PStr key) (case params of None \<Rightarrow> [] | Some p \<Rightarrow> p))"

text \<open>\<open>_make_request\<close> from the rate limiter on (lines 139 to 191).\<close>

definition rate_limit_and_dispatch ::
  "http_env \<Rightarrow> client \<Rightarrow> world \<Rightarrow> string \<Rightarrow> pydict \<Rightarrow> string option
   \<Rightarrow> (error + pyval) \<times> client \<times> world" where
  "rate_limit_and_dispatch env cl w resource_id params cache_key =
     (case wait_if_needed (rate_limiter cl) w of
        (Some e, rl, w1) \<Rightarrow> (Inl e, cl\<lparr>rate_limiter := rl\<rparr>, w1)
      | (None, rl, w1) \<Rightarrow>
          dispatch_loop env resource_id (build_url env cl resource_id) params cache_key
            [0..<nat (max_retries (config cl) + 1)] None (cl\<lparr>rate_limiter := rl\<rparr>) w1)"

definition make_request ::
  "http_env \<Rightarrow> client \<Rightarrow> world \<Rightarrow> string \<Rightarrow> pydict option \<Rightarrow> bool
   \<Rightarrow> (error + pyval) \<times> client \<times> world" where
  "make_request env cl w resource_id params use_cache =
     (case api_key (config cl) of
        None \<Rightarrow> (Inl APIKeyMissingError, cl, w)
      | Some k \<Rightarrow>
          if k = [] then (Inl APIKeyMissingError, cl, w)
          else
            (let params1 = prepare_params k params in
             case (if use_cache then cache cl else None) of
               Some c \<Rightarrow>
                 (let cache_key = make_key [PStr resource_id] params1;
                      (cached, c1) = cache_get c cache_key (clock w);
                      cl1 = cl\<lparr>cache := Some c1\<rparr>
                  in if cached \<noteq> PNone then (Inr cached, cl1, w)
                     else rate_limit_and_dispatch env cl1 w resource_id params1 (Some cache_key))
             | None \<Rightarrow> rate_limit_and_dispatch env cl w resource_id params1 None))"

text \<open>\<open>get_resource\<close>: \<open>limit or default_limit\<close>, the limit check, and the parameters.\<close>

definition get_resource ::
  "http_env \<Rightarrow> client \<Rightarrow> world \<Rightarrow> string \<Rightarrow> pydict option \<Rightarrow> int \<Rightarrow> int option
   \<Rightarrow> (error + pyval) \<times> client \<times> world" where
  "get_resource env cl w resource_id filters offset limit =
     (let limit1 = (case limit of
                      None \<Rightarrow> default_limit (config cl)
                    | Some l \<Rightarrow> if l = 0 then default_limit (config cl) else l)
      in if limit1 > max_limit (config cl)
         then (Inl (InvalidParameterError ''limit''
                      (''Cannot exceed '' @ str_int (max_limit (config cl)))), cl, w)
         else
           (let params = [(''offset'', PInt offset), (''limit'', PInt limit1)];
                params1 = (case filters of
                             None \<Rightarrow> params
                           | Some f \<Rightarrow> if f = [] then params
                                       else od_assign ''filters'' (PDict f) params)
            in make_request env cl w resource_id (Some params1) True))"

section \<open>Vocabulary for the properties of the retry loop\<close>

text \<open>
  What the \<open>except\<close> clauses record as \<open>last_exception\<close> for an outcome of \<open>client.get\<close>
  that is retried whatever the cache does: an exception raised by the call, by
  \<open>raise_for_status()\<close> or by \<open>json()\<close>. \<open>None\<close> for the other outcomes.
\<close>

fun recorded_failure :: "http_outcome \<Rightarrow> error option" where
  "recorded_failure (TimeoutException e) = Some (NetworkError (''Request timeout: '' @ e))"
| "recorded_failure (HttpNetworkError e) = Some (NetworkError (''Network error: '' @ e))"
| "recorded_failure (OtherException e) = Some (APIError 500 (''Unexpected error: '' @ e))"
| "recorded_failure (Response r) =
     (if status_code r \<ge> 400 then None
      else case raise_for_status r of
             Some m \<Rightarrow> Some (APIError 500 (''Unexpected error: '' @ m))
           | None \<Rightarrow>
               (case json_body r of
                  Inl m \<Rightarrow> Some (APIError 500 (''Unexpected error: '' @ m))
                | Inr _ \<Rightarrow> None))"



text \<open>
  The events of the attempts \<open>k\<close> up to \<open>j - 1\<close> when each of them is retried after a
  back-off: a GET, then a sleep of \<open>retry_delay * backoff_factor ^ i\<close> after attempt \<open>i\<close>.
\<close>

definition retry_trace :: "config \<Rightarrow> string \<Rightarrow> pydict \<Rightarrow> nat \<Rightarrow> nat \<Rightarrow> event list" where
  "retry_trace cfg url params k j =
     concat (map (\<lambda>i. [EvGet url params, EvSleep (retry_delay cfg * backoff_factor cfg ^ i)])
                 [k..<j])"

section \<open>Stubs and fixtures of the tests\<close>

text \<open>
  The HTTP stub of \<open>tests/test_api_client.py\<close>: it answers the \<open>n\<close>-th call with the
  \<open>n\<close>-th outcome of a list (\<open>side_effect\<close>) and every later call with a fixed outcome
  (\<open>return_value\<close>), at once. For a base URL without a path and an absolute path,
  \<open>urljoin\<close> appends the path.
\<close>

definition stub_env :: "http_outcome list \<Rightarrow> http_outcome \<Rightarrow> http_env" where
  "stub_env outs dflt =
     \<lparr>urljoin = (\<lambda>base path. base @ path),
      http_get = (\<lambda>n url params. (0, if n < length outs then outs ! n else dflt))\<rparr>"

text \<open>\<open>Config(api_key="test-key", cache_enabled=..., max_retries=...)\<close> and its client.\<close>

definition test_config :: "bool \<Rightarrow> int \<Rightarrow> config" where
  "test_config enabled retries =
     default_config\<lparr>api_key := Some ''test-key'', cache_enabled := enabled,
                    max_retries := retries\<rparr>"

definition test_client :: "bool \<Rightarrow> int \<Rightarrow> client" where
  "test_client enabled retries =
     \<lparr>config = test_config enabled retries,
      cache = (if enabled then Some (new_cache 1000 3600) else None),
      rate_limiter = new_rate_limiter 100 60\<rparr>"

definition ok_response :: "pyval \<Rightarrow> http_outcome" where
  "ok_response data =
     Response \<lparr>status_code = 200, body_text = json_dumps data, raise_for_status = None,
               json_body = Inr data\<rparr>"

definition error_response :: "int \<Rightarrow> string \<Rightarrow> http_outcome" where
  "error_response sc body =
     Response \<lparr>status_code = sc, body_text = body, raise_for_status = Some ''HTTPStatusError'',
               json_body = Inl ''JSONDecodeError''\<rparr>"

definition start :: world where
  "start = \<lparr>clock = 0, trace = []\<rparr>"

section \<open>Properties of the rate limiter\<close>

lemma time_sleep_nonneg:
  "0 \<le> d \<Longrightarrow> time_sleep d w = Inr (w\<lparr>clock := clock w + d, trace := trace w @ [EvSleep d]\<rparr>)"
  by (simp add: time_sleep_def)

lemma filter_Cons_holds: "filter P xs = y # ys \<Longrightarrow> P y"
  by (metis filter_eq_Cons_iff)

text \<open>
  With a positive \<open>max_calls\<close> the limiter never raises, never records more than
  \<open>max_calls\<close> timestamps, and makes no HTTP call: when the pruned list is full, its
  head is younger than \<open>period\<close>, so \<open>sleep_time\<close> is positive and the list is reset.
\<close>

lemma wait_if_needed_ok:
  assumes "0 < max_calls rl"
  shows "\<exists>rl' w'. wait_if_needed rl w = (None, rl', w')
     \<and> int (length (calls rl')) \<le> max_calls rl
     \<and> max_calls rl' = max_calls rl \<and> period rl' = period rl
     \<and> filter is_get (trace w') = filter is_get (trace w)"
proof -
  let ?cs = "filter (\<lambda>call_time. clock w - call_time < real_of_int (period rl)) (calls rl)"
  show ?thesis
  proof (cases "int (length ?cs) \<ge> max_calls rl")
    case False
    then show ?thesis by (simp add: wait_if_needed_def Let_def)
  next
    case True
    with assms obtain c0 rest where cs: "?cs = c0 # rest" by (cases ?cs) auto
    then have "clock w - c0 < real_of_int (period rl)" by (rule filter_Cons_holds)
    then have pos: "real_of_int (period rl) - (clock w - c0) > 0" by simp
    show ?thesis using True cs pos assms
      by (simp add: wait_if_needed_def Let_def time_sleep_def)
  qed
qed


section \<open>Properties of the cache\<close>

text \<open>
  Claim C2 (a value set with TTL 0 is absent on the next \<open>get\<close>, which counts as a miss)
  fails on the code: \<open>ttl or self.default_ttl\<close> replaces the TTL 0 by the default. In a
  cache with default TTL 60, \<open>set("key1", "value1", ttl=0)\<close> at time 0 followed by
  \<open>get("key1")\<close> a tenth of a second later returns the value and counts a hit.
\<close>

theorem ttl_zero_falls_back_to_default:
  "(case cache_set (new_cache 10 60) ''key1'' (PStr ''value1'') (Some 0) 0 of
      Inl _ \<Rightarrow> False
    | Inr c \<Rightarrow> cache_get c ''key1'' (1 / 10) = (PStr ''value1'', c\<lparr>hits := 1\<rparr>) \<and> misses c = 0)"
  by (simp add: new_cache_def cache_set_def cache_get_def od_assign_def ttl_or_default_def
      CacheEntry_def is_expired_def move_to_end_def od_delete_def)





lemma od_delete_absent: "k \<notin> fst ` set es \<Longrightarrow> od_delete k es = es"
  by (induction es) (auto simp: od_delete_def)

lemma map_of_od_delete_other: "k' \<noteq> k \<Longrightarrow> map_of (od_delete k es) k' = map_of es k'"
  by (induction es) (auto simp: od_delete_def)

lemma keys_od_delete: "fst ` set (od_delete k es) = fst ` set es - {k}"
  by (auto simp: od_delete_def)

lemma length_od_delete:
  "distinct (map fst es) \<Longrightarrow> k \<in> fst ` set es \<Longrightarrow> Suc (length (od_delete k es)) = length es"
  by (induction es) (auto simp: od_delete_def od_delete_absent[unfolded od_delete_def])

lemma distinct_od_delete: "distinct (map fst es) \<Longrightarrow> distinct (map fst (od_delete k es))"
  by (simp add: od_delete_def distinct_map_filter)

lemma map_of_in_keys: "map_of es k = Some e \<Longrightarrow> k \<in> fst ` set es"
  by (metis map_of_eq_None_iff option.distinct(1))

lemma cache_set_evicts_head:
  assumes len: "int (length (entries c)) = max_size c" and pos: "1 \<le> max_size c"
    and new: "key \<notin> fst ` set (entries c)"
  shows "cache_set c key v ttl now =
           Inr (c\<lparr>entries := tl (entries c) @ [(key, CacheEntry v (ttl_or_default ttl (default_ttl c)) now)]\<rparr>)"
proof -
  from len pos obtain x rest where es: "entries c = x # rest" by (cases "entries c") auto
  with new have "key \<notin> fst ` set rest" by auto
  with es new len show ?thesis
    by (simp add: cache_set_def popitem_first_def od_assign_def)
qed

lemma cache_get_hit:
  assumes "map_of (entries c) k = Some e" "\<not> is_expired e t"
  shows "cache_get c k t = (entry_value e, c\<lparr>entries := od_delete k (entries c) @ [(k, e)], hits := hits c + 1\<rparr>)"
  using assms by (simp add: cache_get_def move_to_end_def)

text \<open>
  Claim C6, as the code has it. In a cache that holds exactly \<open>max_size\<close> entries, with
  \<open>max_size\<close> at least 1, \<open>set\<close> of a key that is not in the cache removes exactly the head
  of the ordered dict, which is the least recently accessed entry (\<open>set\<close> and every \<open>get\<close>
  that hits put their key at the tail), keeps all other entries in order and appends the new
  one, so the size stays \<open>max_size\<close>. If moreover \<open>max_size\<close> is at least 2, a \<open>get\<close> that
  hits a key before that \<open>set\<close> keeps the key and its entry in the cache.
\<close>

theorem lru_eviction:
  assumes dist: "distinct (map fst (entries c))"
    and len: "int (length (entries c)) = max_size c" and pos: "1 \<le> max_size c"
    and new: "key \<notin> fst ` set (entries c)"
  shows "(\<exists>c'. cache_set c key v ttl now = Inr c'
      \<and> entries c' = tl (entries c) @ [(key, CacheEntry v (ttl_or_default ttl (default_ttl c)) now)]
      \<and> int (length (entries c')) = max_size c' \<and> max_size c' = max_size c)
    \<and> (\<forall>k e t. 2 \<le> max_size c \<and> map_of (entries c) k = Some e \<and> \<not> is_expired e t \<longrightarrow>
            (\<exists>c''. cache_set (snd (cache_get c k t)) key v ttl now = Inr c''
               \<and> map_of (entries c'') k = Some e
               \<and> int (length (entries c'')) = max_size c))"
proof -
  let ?new = "(key, CacheEntry v (ttl_or_default ttl (default_ttl c)) now)"
  have first: "cache_set c key v ttl now = Inr (c\<lparr>entries := tl (entries c) @ [?new]\<rparr>)"
    using len pos new by (rule cache_set_evicts_head)
  from len pos have ne: "entries c \<noteq> []" by auto
  have second: "\<exists>c''. cache_set (snd (cache_get c k t)) key v ttl now = Inr c''
               \<and> map_of (entries c'') k = Some e
               \<and> int (length (entries c'')) = max_size c"
    if big: "2 \<le> max_size c" and hit: "map_of (entries c) k = Some e" and fresh: "\<not> is_expired e t"
    for k e t
  proof -
    let ?c1 = "c\<lparr>entries := od_delete k (entries c) @ [(k, e)], hits := hits c + 1\<rparr>"
    from hit have kin: "k \<in> fst ` set (entries c)" by (rule map_of_in_keys)
    with new have kne: "k \<noteq> key" by auto
    have g: "snd (cache_get c k t) = ?c1" using hit fresh by (simp add: cache_get_hit)
    from dist kin have l: "Suc (length (od_delete k (entries c))) = length (entries c)"
      by (rule length_od_delete)
    with len big obtain x rest where d: "od_delete k (entries c) = x # rest"
      by (cases "od_delete k (entries c)") auto
    have len1: "int (length (entries ?c1)) = max_size ?c1" using l len by simp
    have new1: "key \<notin> fst ` set (entries ?c1)" using new kne by (auto simp: od_delete_def)
    have s: "cache_set ?c1 key v ttl now =
        Inr (?c1\<lparr>entries := tl (entries ?c1) @ [(key, CacheEntry v (ttl_or_default ttl (default_ttl ?c1)) now)]\<rparr>)"
      using len1 _ new1 by (rule cache_set_evicts_head) (use pos in simp)
    have "k \<notin> fst ` set (od_delete k (entries c))" by (simp add: keys_od_delete)
    with d have "k \<notin> fst ` set rest" by auto
    then have "map_of rest k = None" by (simp add: map_of_eq_None_iff)
    then have m: "map_of (rest @ [(k, e), (key, CacheEntry v (ttl_or_default ttl (default_ttl c)) now)]) k = Some e"
      using kne by (simp add: map_add_def)
    show ?thesis using g s d m l len by simp
  qed
  from first second ne len show ?thesis by simp
qed


text \<open>The theorem at a full cache of two entries: \<open>k1\<close> is the oldest, \<open>k3\<close> is new.\<close>

theorem lru_eviction_witness:
  "distinct (map fst (entries \<lparr>max_size = 2, default_ttl = 60,
       entries = [(''k1'', \<lparr>entry_value = PStr ''v1'', expiry = 60\<rparr>),
                  (''k2'', \<lparr>entry_value = PStr ''v2'', expiry = 61\<rparr>)], hits = 0, misses = 0\<rparr>))
   \<and> (\<exists>c'. cache_set \<lparr>max_size = 2, default_ttl = 60,
                 entries = [(''k1'', \<lparr>entry_value = PStr ''v1'', expiry = 60\<rparr>),
                            (''k2'', \<lparr>entry_value = PStr ''v2'', expiry = 61\<rparr>)],
                 hits = 0, misses = 0\<rparr> ''k3'' (PStr ''v3'') None 5 = Inr c'
          \<and> map fst (entries c') = [''k2'', ''k3''])
   \<and> (\<exists>c''. cache_set (snd (cache_get \<lparr>max_size = 2, default_ttl = 60,
                 entries = [(''k1'', \<lparr>entry_value = PStr ''v1'', expiry = 60\<rparr>),
                            (''k2'', \<lparr>entry_value = PStr ''v2'', expiry = 61\<rparr>)],
                 hits = 0, misses = 0\<rparr> ''k1'' 1)) ''k3'' (PStr ''v3'') None 5 = Inr c''
          \<and> map_of (entries c'') ''k1'' = Some \<lparr>entry_value = PStr ''v1'', expiry = 60\<rparr>)"
proof -
  let ?e1 = "\<lparr>entry_value = PStr ''v1'', expiry = 60\<rparr>"
  let ?c = "\<lparr>max_size = 2, default_ttl = 60,
             entries = [(''k1'', ?e1), (''k2'', \<lparr>entry_value = PStr ''v2'', expiry = 61\<rparr>)],
             hits = 0, misses = 0\<rparr>"
  have d: "distinct (map fst (entries ?c))" by simp
  have l: "int (length (entries ?c)) = max_size ?c" by simp
  have p: "1 \<le> max_size ?c" by simp
  have n: "''k3'' \<notin> fst ` set (entries ?c)" by simp
  note th = lru_eviction [OF d l p n, of "PStr ''v3''" None 5]
  from th [THEN conjunct1]
  obtain c' where c': "cache_set ?c ''k3'' (PStr ''v3'') None 5 = Inr c'"
    and es: "entries c' = tl (entries ?c)
               @ [(''k3'', CacheEntry (PStr ''v3'') (ttl_or_default None (default_ttl ?c)) 5)]"
    by (elim exE conjE)
  from es have keys: "map fst (entries c') = [''k2'', ''k3'']" by simp
  have first: "\<exists>c'. cache_set ?c ''k3'' (PStr ''v3'') None 5 = Inr c'
          \<and> map fst (entries c') = [''k2'', ''k3'']"
    using c' keys by (intro exI conjI)
  have h: "2 \<le> max_size ?c \<and> map_of (entries ?c) ''k1'' = Some ?e1 \<and> \<not> is_expired ?e1 1"
    by (simp add: is_expired_def)
  from th [THEN conjunct2, rule_format, OF h]
  obtain c'' where "cache_set (snd (cache_get ?c ''k1'' 1)) ''k3'' (PStr ''v3'') None 5 = Inr c''"
    and "map_of (entries c'') ''k1'' = Some ?e1"
    by (elim exE conjE)
  then have second: "\<exists>c''. cache_set (snd (cache_get ?c ''k1'' 1)) ''k3'' (PStr ''v3'') None 5 = Inr c''
               \<and> map_of (entries c'') ''k1'' = Some ?e1"
    by (intro exI conjI)
  from d first second show ?thesis by (intro conjI)
qed

text \<open>
  With \<open>max_size = 1\<close> a \<open>get\<close> does not protect: the cache holds exactly \<open>max_size\<close>
  entries, \<open>get\<close> of \<open>k1\<close> hits, and the following \<open>set\<close> of \<open>k2\<close> evicts \<open>k1\<close>.
\<close>

theorem lru_get_protects_counterexample:
  "int (length (entries \<lparr>max_size = 1, default_ttl = 60,
          entries = [(''k1'', \<lparr>entry_value = PStr ''v1'', expiry = 60\<rparr>)],
          hits = 0, misses = 0\<rparr>)) = 1
   \<and> fst (cache_get \<lparr>max_size = 1, default_ttl = 60,
            entries = [(''k1'', \<lparr>entry_value = PStr ''v1'', expiry = 60\<rparr>)],
            hits = 0, misses = 0\<rparr> ''k1'' 1) = PStr ''v1''
   \<and> (case cache_set (snd (cache_get \<lparr>max_size = 1, default_ttl = 60,
            entries = [(''k1'', \<lparr>entry_value = PStr ''v1'', expiry = 60\<rparr>)],
            hits = 0, misses = 0\<rparr> ''k1'' 1)) ''k2'' (PStr ''v2'') None 2 of
         Inl _ \<Rightarrow> False
       | Inr c \<Rightarrow> map fst (entries c) = [''k2''])"
  by (simp add: cache_set_def cache_get_def od_assign_def ttl_or_default_def CacheEntry_def
      is_expired_def move_to_end_def od_delete_def popitem_first_def)

section \<open>Properties of the request loop\<close>

lemma http_calls_append_get [simp]:
  "http_calls (w\<lparr>clock := t, trace := trace w @ [EvGet u p]\<rparr>) = Suc (http_calls w)"
  by (simp add: http_calls_def)

lemma http_calls_append_sleep [simp]:
  "http_calls (w\<lparr>clock := t, trace := trace w @ [EvSleep d]\<rparr>) = http_calls w"
  by (simp add: http_calls_def)

lemma client_get_eq:
  "client_get env url params w =
     (snd (http_get env (http_calls w) url params),
      w\<lparr>clock := clock w + fst (http_get env (http_calls w) url params),
        trace := trace w @ [EvGet url params]\<rparr>)"
  by (simp add: client_get_def split: prod.splits)

lemma attempt_once_retry:
  assumes "recorded_failure (snd (http_get env (http_calls w) url params)) = Some e"
  shows "attempt_once env cl rid url params ck w =
     (Retry e, cl, w\<lparr>clock := clock w + fst (http_get env (http_calls w) url params),
                      trace := trace w @ [EvGet url params]\<rparr>)"
  using assms
  by (cases "snd (http_get env (http_calls w) url params)")
     (auto simp: attempt_once_def client_get_eq split: option.splits sum.splits if_splits)

lemma attempt_once_fatal:
  assumes "snd (http_get env (http_calls w) url params) = Response r" "status_code r \<ge> 400"
  shows "attempt_once env cl rid url params ck w =
     (Raise (if status_code r = 404 then ResourceNotFoundError rid
             else if status_code r = 429 then RateLimitError
             else APIError (status_code r) (body_text r)), cl,
      w\<lparr>clock := clock w + fst (http_get env (http_calls w) url params),
        trace := trace w @ [EvGet url params]\<rparr>)"
  using assms by (simp add: attempt_once_def client_get_eq)

lemma retry_trace_step:
  "k < j \<Longrightarrow> retry_trace cfg url params k j =
     [EvGet url params, EvSleep (retry_delay cfg * backoff_factor cfg ^ k)]
       @ retry_trace cfg url params (Suc k) j"
  by (simp add: retry_trace_def upt_conv_Cons)

lemma retry_trace_empty [simp]: "retry_trace cfg url params k k = []"
  by (simp add: retry_trace_def)

lemma dispatch_loop_retries:
  assumes delay: "0 \<le> retry_delay (config cl)" and factor: "0 \<le> backoff_factor (config cl)"
    and jmax: "int j \<le> max_retries (config cl)" and jn: "j \<le> n"
  shows "k \<le> j \<Longrightarrow> http_calls w = b + k \<Longrightarrow>
    (\<forall>i. k \<le> i \<and> i < j \<longrightarrow> recorded_failure (snd (http_get env (b + i) url params)) \<noteq> None) \<Longrightarrow>
    \<exists>w'. dispatch_loop env rid url params ck [k..<n] lastx cl w =
           dispatch_loop env rid url params ck [j..<n]
             (if k < j then recorded_failure (snd (http_get env (b + (j - 1)) url params)) else lastx)
             cl w'
        \<and> trace w' = trace w @ retry_trace (config cl) url params k j
        \<and> http_calls w' = b + j"
proof (induction "j - k" arbitrary: k w lastx)
  case 0
  then have "k = j" by simp
  then show ?case using 0 by (intro exI [of _ w]) simp
next
  case (Suc d)
  then have kj: "k < j" by simp
  with jn have kn: "k < n" by simp
  from Suc.prems kj obtain e where
    e: "recorded_failure (snd (http_get env (http_calls w) url params)) = Some e"
    by (metis le_refl not_Some_eq)
  let ?w1 = "w\<lparr>clock := clock w + fst (http_get env (http_calls w) url params),
                trace := trace w @ [EvGet url params]\<rparr>"
  let ?d = "retry_delay (config cl) * backoff_factor (config cl) ^ k"
  let ?w2 = "?w1\<lparr>clock := clock ?w1 + ?d, trace := trace ?w1 @ [EvSleep ?d]\<rparr>"
  have a: "attempt_once env cl rid url params ck w = (Retry e, cl, ?w1)"
    using e by (rule attempt_once_retry)
  have dpos: "0 \<le> ?d" using delay factor by simp
  have lt: "int k < max_retries (config cl)" using kj jmax by simp
  have step: "dispatch_loop env rid url params ck [k..<n] lastx cl w =
              dispatch_loop env rid url params ck [Suc k..<n] (Some e) cl ?w2"
    using kn a lt dpos by (simp add: upt_conv_Cons time_sleep_def)
  have hc: "http_calls ?w2 = b + Suc k" using Suc.prems by (simp add: http_calls_def)
  have "\<exists>w'. dispatch_loop env rid url params ck [Suc k..<n] (Some e) cl ?w2 =
           dispatch_loop env rid url params ck [j..<n]
             (if Suc k < j then recorded_failure (snd (http_get env (b + (j - 1)) url params)) else Some e)
             cl w'
        \<and> trace w' = trace ?w2 @ retry_trace (config cl) url params (Suc k) j
        \<and> http_calls w' = b + j"
  proof (rule Suc.hyps(1))
    show "d = j - Suc k" using Suc.hyps(2) by simp
    show "Suc k \<le> j" using kj by simp
    show "http_calls ?w2 = b + Suc k" by (rule hc)
    show "\<forall>i. Suc k \<le> i \<and> i < j \<longrightarrow> recorded_failure (snd (http_get env (b + i) url params)) \<noteq> None"
      using Suc.prems by simp
  qed
  then obtain w' where
    r: "dispatch_loop env rid url params ck [Suc k..<n] (Some e) cl ?w2 =
           dispatch_loop env rid url params ck [j..<n]
             (if Suc k < j then recorded_failure (snd (http_get env (b + (j - 1)) url params)) else Some e)
             cl w'"
    and t: "trace w' = trace ?w2 @ retry_trace (config cl) url params (Suc k) j"
    and h: "http_calls w' = b + j"
    by blast
  have last_eq: "(if Suc k < j then recorded_failure (snd (http_get env (b + (j - 1)) url params)) else Some e)
      = recorded_failure (snd (http_get env (b + (j - 1)) url params))"
  proof (cases "Suc k < j")
    case True then show ?thesis by simp
  next
    case False
    with kj have "j - 1 = k" by simp
    with e Suc.prems False show ?thesis by simp
  qed
  have tr: "trace w' = trace w @ retry_trace (config cl) url params k j"
    using t kj by (simp add: retry_trace_step)
  show ?case using step r last_eq tr h kj by auto
qed





lemma dispatch_loop_fatal:
  assumes delay: "0 \<le> retry_delay (config cl)" and factor: "0 \<le> backoff_factor (config cl)"
    and j: "int j \<le> max_retries (config cl)"
    and fails: "\<forall>i < j. recorded_failure (snd (http_get env (http_calls w + i) url params)) \<noteq> None"
    and resp: "snd (http_get env (http_calls w + j) url params) = Response r"
    and st: "status_code r \<ge> 400"
  shows "\<exists>w'. dispatch_loop env rid url params ck [0..<nat (max_retries (config cl) + 1)] None cl w
             = (Inl (if status_code r = 404 then ResourceNotFoundError rid
                     else if status_code r = 429 then RateLimitError
                     else APIError (status_code r) (body_text r)), cl, w')
      \<and> trace w' = trace w @ retry_trace (config cl) url params 0 j @ [EvGet url params]
      \<and> http_calls w' = http_calls w + j + 1"
proof -
  let ?n = "nat (max_retries (config cl) + 1)"
  from j have jn: "j < ?n" by simp
  have "\<exists>w'. dispatch_loop env rid url params ck [0..<?n] None cl w =
           dispatch_loop env rid url params ck [j..<?n]
             (if 0 < j then recorded_failure (snd (http_get env (http_calls w + (j - 1)) url params)) else None)
             cl w'
        \<and> trace w' = trace w @ retry_trace (config cl) url params 0 j
        \<and> http_calls w' = http_calls w + j"
    using delay factor j
  proof (rule dispatch_loop_retries)
    show "j \<le> ?n" using jn by simp
    show "0 \<le> j" by simp
    show "http_calls w = http_calls w + 0" by simp
    show "\<forall>i. 0 \<le> i \<and> i < j \<longrightarrow> recorded_failure (snd (http_get env (http_calls w + i) url params)) \<noteq> None"
      using fails by simp
  qed
  then obtain w1 lastx where
    r: "dispatch_loop env rid url params ck [0..<?n] None cl w =
           dispatch_loop env rid url params ck [j..<?n] lastx cl w1"
    and t: "trace w1 = trace w @ retry_trace (config cl) url params 0 j"
    and h: "http_calls w1 = http_calls w + j"
    by blast
  let ?w2 = "w1\<lparr>clock := clock w1 + fst (http_get env (http_calls w1) url params),
                 trace := trace w1 @ [EvGet url params]\<rparr>"
  let ?err = "if status_code r = 404 then ResourceNotFoundError rid
              else if status_code r = 429 then RateLimitError
              else APIError (status_code r) (body_text r)"
  have a: "attempt_once env cl rid url params ck w1 = (Raise ?err, cl, ?w2)"
    using resp st h by (intro attempt_once_fatal) simp_all
  have fin: "dispatch_loop env rid url params ck [j..<?n] lastx cl w1 = (Inl ?err, cl, ?w2)"
    using a jn by (simp add: upt_conv_Cons)
  have "http_calls ?w2 = http_calls w + j + 1" using h by simp
  with r fin t show ?thesis by simp
qed

lemma make_request_reaches_dispatch:
  assumes key: "api_key (config cl) = Some key" "key \<noteq> []"
    and rl: "0 < max_calls (rate_limiter cl)"
    and miss: "use_cache \<longrightarrow> (\<forall>c. cache cl = Some c \<longrightarrow>
        fst (cache_get c (make_key [PStr rid] (prepare_params key params)) (clock w)) = PNone)"
  shows "\<exists>cl1 w1 ck. make_request env cl w rid params use_cache =
           dispatch_loop env rid (build_url env cl rid) (prepare_params key params) ck
             [0..<nat (max_retries (config cl) + 1)] None cl1 w1
       \<and> config cl1 = config cl \<and> http_calls w1 = http_calls w"
proof -
  have disp: "\<exists>cl1 w1. rate_limit_and_dispatch env cl0 w rid (prepare_params key params) ck =
           dispatch_loop env rid (build_url env cl rid) (prepare_params key params) ck
             [0..<nat (max_retries (config cl) + 1)] None cl1 w1
       \<and> config cl1 = config cl \<and> http_calls w1 = http_calls w"
    if c0: "config cl0 = config cl" and r0: "rate_limiter cl0 = rate_limiter cl" for cl0 ck
  proof -
    from wait_if_needed_ok [OF rl, of w] obtain rl' w' where
      w: "wait_if_needed (rate_limiter cl) w = (None, rl', w')"
      and g: "filter is_get (trace w') = filter is_get (trace w)"
      by blast
    from g have h: "http_calls w' = http_calls w" by (simp add: http_calls_def)
    have "rate_limit_and_dispatch env cl0 w rid (prepare_params key params) ck =
           dispatch_loop env rid (build_url env cl rid) (prepare_params key params) ck
             [0..<nat (max_retries (config cl) + 1)] None (cl0\<lparr>rate_limiter := rl'\<rparr>) w'"
      using w c0 r0 by (simp add: rate_limit_and_dispatch_def build_url_def)
    moreover have "config (cl0\<lparr>rate_limiter := rl'\<rparr>) = config cl" using c0 by simp
    ultimately show ?thesis using h by blast
  qed
  show ?thesis
  proof (cases "use_cache \<and> cache cl \<noteq> None")
    case False
    then have "make_request env cl w rid params use_cache =
        rate_limit_and_dispatch env cl w rid (prepare_params key params) None"
      using key by (auto simp: make_request_def)
    with disp [of cl None] show ?thesis by (metis (no_types))
  next
    case True
    then obtain c where c: "cache cl = Some c" and uc: use_cache by auto
    let ?k = "make_key [PStr rid] (prepare_params key params)"
    obtain v c1 where g: "cache_get c ?k (clock w) = (v, c1)" by (cases "cache_get c ?k (clock w)")
    with miss uc c have v: "v = PNone" by auto
    have "make_request env cl w rid params use_cache =
        rate_limit_and_dispatch env (cl\<lparr>cache := Some c1\<rparr>) w rid (prepare_params key params) (Some ?k)"
      using key c uc g v by (simp add: make_request_def Let_def)
    moreover have "config (cl\<lparr>cache := Some c1\<rparr>) = config cl"
      "rate_limiter (cl\<lparr>cache := Some c1\<rparr>) = rate_limiter cl" by simp_all
    ultimately show ?thesis using disp [of "cl\<lparr>cache := Some c1\<rparr>" "Some ?k"]
      by (metis (no_types))
  qed
qed


text \<open>
  A client built by \<open>DataGovInClient.__init__\<close> has passed \<open>Config.validate\<close>: its rate
  limiter admits at least one call and \<open>max_retries\<close> is not negative. The clients of the
  fixtures are built that way.
\<close>

lemma new_client_valid:
  assumes "new_client cfg = Inr cl"
  shows "config cl = cfg \<and> 0 < max_calls (rate_limiter cl) \<and> 0 \<le> max_retries (config cl)
     \<and> (cache cl \<noteq> None) = cache_enabled cfg"
  using assms
  by (auto simp: new_client_def validate_def new_rate_limiter_def split: option.splits if_splits)

lemma new_client_test_config:
  "0 \<le> r \<Longrightarrow> new_client (test_config e r) = Inr (test_client e r)"
  by (simp add: new_client_def validate_def test_config_def default_config_def test_client_def)

lemmas fixture_defs = test_client_def test_config_def default_config_def stub_env_def start_def
  new_rate_limiter_def new_cache_def http_calls_def ok_response_def error_response_def

lemma http_calls_start: "http_calls start = 0"
  by (simp add: start_def http_calls_def)

lemmas run_defs = make_request_def fixture_defs prepare_params_def od_assign_def setdefault_def
  cache_get_def Let_def rate_limit_and_dispatch_def wait_if_needed_def build_url_def
  attempt_once_def client_get_def cache_set_def ttl_or_default_def CacheEntry_def
  is_expired_def move_to_end_def od_delete_def time_sleep_def upt_conv_Cons





text \<open>
  Claim C5, as the code has it. In a fetch that reaches the dispatch loop with a valid
  configuration, let the
  attempt with zero-based index \<open>j\<close> be answered with a status of 400 or more, the attempts
  before it having been retried. The fetch then fails at once with the typed error of that
  status (\<open>ResourceNotFoundError\<close> for 404, \<open>RateLimitError\<close> for 429, \<open>APIError\<close> with the
  status and the body otherwise), and the transport is not called again: it was called
  \<open>j + 1\<close> times in all, so exactly once when the first response is the fatal one.
\<close>

theorem fatal_status_not_retried:
  assumes key: "api_key (config cl) = Some key" "key \<noteq> []"
    and rl: "0 < max_calls (rate_limiter cl)"
    and miss: "use_cache \<longrightarrow> (\<forall>c. cache cl = Some c \<longrightarrow>
        fst (cache_get c (make_key [PStr rid] (prepare_params key params)) (clock w)) = PNone)"
    and delay: "0 \<le> retry_delay (config cl)" and factor: "0 \<le> backoff_factor (config cl)"
    and j: "int j \<le> max_retries (config cl)"
    and fails: "\<forall>i < j. recorded_failure (snd (http_get env (http_calls w + i)
                          (build_url env cl rid) (prepare_params key params))) \<noteq> None"
    and resp: "snd (http_get env (http_calls w + j) (build_url env cl rid)
                      (prepare_params key params)) = Response r"
    and st: "status_code r \<ge> 400"
  shows "\<exists>cl' w'. make_request env cl w rid params use_cache =
            (Inl (if status_code r = 404 then ResourceNotFoundError rid
                  else if status_code r = 429 then RateLimitError
                  else APIError (status_code r) (body_text r)), cl', w')
      \<and> http_calls w' = http_calls w + j + 1"
proof -
  let ?url = "build_url env cl rid" and ?ps = "prepare_params key params"
  from make_request_reaches_dispatch [OF key rl miss, of env]
  obtain cl1 w1 ck where
    mr: "make_request env cl w rid params use_cache =
           dispatch_loop env rid ?url ?ps ck [0..<nat (max_retries (config cl) + 1)] None cl1 w1"
    and c1: "config cl1 = config cl" and h1: "http_calls w1 = http_calls w"
    by blast
  from dispatch_loop_fatal [of cl1 j env w1 ?url ?ps r rid ck] delay factor j fails resp st c1 h1
  obtain w' where
    "dispatch_loop env rid ?url ?ps ck [0..<nat (max_retries (config cl) + 1)] None cl1 w1
       = (Inl (if status_code r = 404 then ResourceNotFoundError rid
               else if status_code r = 429 then RateLimitError
               else APIError (status_code r) (body_text r)), cl1, w')"
    and "http_calls w' = http_calls w + j + 1"
    by auto
  with mr show ?thesis by auto
qed

text \<open>
  The theorem for the stub that answers 404 (one call), and for a timeout followed by a 503
  (two calls, no third).
\<close>

theorem fatal_status_not_retried_witness:
  "snd (http_get (stub_env [] (error_response 404 ''Not Found'')) (http_calls start + 0)
          (build_url (stub_env [] (error_response 404 ''Not Found'')) (test_client False 3) ''missing'')
          (prepare_params ''test-key'' None))
     = error_response 404 ''Not Found''
   \<and> (\<exists>cl' w'. make_request (stub_env [] (error_response 404 ''Not Found'')) (test_client False 3)
                   start ''missing'' None True
                 = (Inl (ResourceNotFoundError ''missing''), cl', w')
               \<and> http_calls w' = 1)
   \<and> recorded_failure (snd (http_get
          (stub_env [TimeoutException ''Timeout''] (error_response 503 ''busy'')) (http_calls start + 0)
          (build_url (stub_env [TimeoutException ''Timeout''] (error_response 503 ''busy''))
             (test_client False 3) ''r'')
          (prepare_params ''test-key'' None))) \<noteq> None
   \<and> (\<exists>cl' w'. make_request (stub_env [TimeoutException ''Timeout''] (error_response 503 ''busy''))
                   (test_client False 3) start ''r'' None True
                 = (Inl (APIError 503 ''busy''), cl', w')
               \<and> http_calls w' = 2)"
proof -
  let ?cl = "test_client False 3"
  let ?r404 = "\<lparr>status_code = 404, body_text = ''Not Found'',
                 raise_for_status = Some ''HTTPStatusError'', json_body = Inl ''JSONDecodeError''\<rparr>"
  let ?r503 = "\<lparr>status_code = 503, body_text = ''busy'',
                 raise_for_status = Some ''HTTPStatusError'', json_body = Inl ''JSONDecodeError''\<rparr>"
  let ?e1 = "stub_env [] (error_response 404 ''Not Found'')"
  let ?e2 = "stub_env [TimeoutException ''Timeout''] (error_response 503 ''busy'')"
  have key: "api_key (config ?cl) = Some ''test-key''" "''test-key'' \<noteq> []"
    by (simp_all add: fixture_defs)
  have rl: "0 < max_calls (rate_limiter ?cl)" by (simp add: fixture_defs)
  have miss: "True \<longrightarrow> (\<forall>c. cache ?cl = Some c \<longrightarrow>
        fst (cache_get c (make_key [PStr rid] (prepare_params ''test-key'' None))
               (clock start)) = PNone)" for rid
    by (simp add: fixture_defs)
  have delay: "0 \<le> retry_delay (config ?cl)" and factor: "0 \<le> backoff_factor (config ?cl)"
    by (simp_all add: fixture_defs)
  have j0: "int 0 \<le> max_retries (config ?cl)" and j1: "int 1 \<le> max_retries (config ?cl)"
    by (simp_all add: fixture_defs)
  have f0: "\<forall>i < 0. recorded_failure (snd (http_get ?e1 (http_calls start + i)
              (build_url ?e1 ?cl ''missing'') (prepare_params ''test-key'' None))) \<noteq> None"
    by simp
  have resp0: "snd (http_get ?e1 (http_calls start + 0) (build_url ?e1 ?cl ''missing'')
                 (prepare_params ''test-key'' None)) = Response ?r404"
    by (simp add: stub_env_def error_response_def)
  have st0: "status_code ?r404 \<ge> 400" by simp
  from fatal_status_not_retried [OF key rl miss delay factor j0 f0 resp0 st0]
  have first: "\<exists>cl' w'. make_request ?e1 ?cl start ''missing'' None True
                 = (Inl (ResourceNotFoundError ''missing''), cl', w') \<and> http_calls w' = 1"
    by (simp add: http_calls_start)
  have f1: "\<forall>i < 1. recorded_failure (snd (http_get ?e2 (http_calls start + i)
              (build_url ?e2 ?cl ''r'') (prepare_params ''test-key'' None))) \<noteq> None"
    by (simp add: stub_env_def http_calls_start)
  have resp1: "snd (http_get ?e2 (http_calls start + 1) (build_url ?e2 ?cl ''r'')
                 (prepare_params ''test-key'' None)) = Response ?r503"
    by (simp add: stub_env_def error_response_def http_calls_start)
  have st1: "status_code ?r503 \<ge> 400" by simp
  from fatal_status_not_retried [OF key rl miss delay factor j1 f1 resp1 st1]
  have second: "\<exists>cl' w'. make_request ?e2 ?cl start ''r'' None True
                 = (Inl (APIError 503 ''busy''), cl', w') \<and> http_calls w' = 2"
    by (simp add: http_calls_start numeral_2_eq_2)
  from resp0 have r0: "snd (http_get ?e1 (http_calls start + 0) (build_url ?e1 ?cl ''missing'')
                 (prepare_params ''test-key'' None)) = error_response 404 ''Not Found''"
    by (simp add: error_response_def)
  from f1 have f1': "recorded_failure (snd (http_get ?e2 (http_calls start + 0)
              (build_url ?e2 ?cl ''r'') (prepare_params ''test-key'' None))) \<noteq> None"
    by (simp add: stub_env_def http_calls_start)
  from r0 first f1' second show ?thesis by (intro conjI)
qed

text \<open>
  The transport is not always called exactly once up to the fatal response: when the first
  call times out and the second is answered 404, the fetch fails with
  \<open>ResourceNotFoundError\<close> after two calls.
\<close>

theorem fatal_after_retry_counterexample:
  "(case make_request (stub_env [TimeoutException ''Timeout''] (error_response 404 ''Not Found''))
            (test_client False 2) start ''missing'' None True of
      (r, cl', w') \<Rightarrow> r = Inl (ResourceNotFoundError ''missing'') \<and> http_calls w' = 2)"
  by (simp add: run_defs)







section \<open>Properties of the cached fetch\<close>

lemma cache_set_lookup:
  assumes "cache_set c key v ttl now = Inr c'"
  shows "map_of (entries c') key = Some (CacheEntry v (ttl_or_default ttl (default_ttl c)) now)
     \<and> default_ttl c' = default_ttl c \<and> max_size c' = max_size c"
proof -
  let ?e = "CacheEntry v (ttl_or_default ttl (default_ttl c)) now"
  have app: "key \<notin> fst ` set es \<Longrightarrow> map_of (od_assign key ?e es) key = Some ?e" for es
    using map_of_eq_None_iff [of es key] by (simp add: od_assign_def map_add_def)
  show ?thesis
  proof (cases "key \<in> fst ` set (entries c)")
    case True
    have "key \<notin> fst ` set (od_delete key (entries c))" by (simp add: keys_od_delete)
    with assms True show ?thesis by (auto simp: cache_set_def app)
  next
    case False
    show ?thesis
    proof (cases "int (length (entries c)) \<ge> max_size c")
      case full: True
      with assms False obtain x rest where es: "entries c = x # rest"
        by (cases "entries c") (auto simp: cache_set_def popitem_first_def)
      with False have "key \<notin> fst ` set rest" by auto
      with assms False full es show ?thesis
        by (auto simp: cache_set_def popitem_first_def app)
    next
      case notfull: False
      with assms False show ?thesis by (auto simp: cache_set_def app)
    qed
  qed
qed

lemma attempt_once_Retry_client:
  "attempt_once env cl rid url params ck w = (Retry e, cl1, w1) \<Longrightarrow> cl1 = cl"
  by (auto simp: attempt_once_def client_get_eq split: http_outcome.splits if_splits option.splits
      sum.splits)

lemma attempt_once_Return_cached:
  assumes "attempt_once env cl rid url params (Some key) w = (Return data, cl1, w1)"
    and "cache cl = Some c"
  shows "\<exists>c'. cache cl1 = Some c'
      \<and> map_of (entries c') key = Some (CacheEntry data (default_ttl c) (clock w1))
      \<and> rate_limiter cl1 = rate_limiter cl \<and> config cl1 = config cl"
  using assms
  by (auto simp: attempt_once_def client_get_eq ttl_or_default_def
      split: http_outcome.splits if_splits option.splits sum.splits dest!: cache_set_lookup)

lemma dispatch_loop_Inr_cached:
  "dispatch_loop env rid url params (Some key) attempts lastx cl w = (Inr data, cl', w') \<Longrightarrow>
   cache cl = Some c \<Longrightarrow>
   \<exists>c'. cache cl' = Some c'
      \<and> map_of (entries c') key = Some (CacheEntry data (default_ttl c) (clock w'))
      \<and> rate_limiter cl' = rate_limiter cl \<and> config cl' = config cl"
proof (induction attempts arbitrary: lastx w)
  case Nil
  then show ?case by simp
next
  case (Cons a attempts)
  obtain res cl1 w1 where a: "attempt_once env cl rid url params (Some key) w = (res, cl1, w1)"
    by (cases "attempt_once env cl rid url params (Some key) w") auto
  show ?case
  proof (cases res)
    case (Return d)
    with Cons.prems a have "d = data" "cl1 = cl'" "w1 = w'" by simp_all
    with a Return Cons.prems(2) show ?thesis
      using attempt_once_Return_cached by blast
  next
    case (Raise e)
    with Cons.prems a show ?thesis by simp
  next
    case (Retry e)
    with a have cl1: "cl1 = cl" using attempt_once_Retry_client by blast
    show ?thesis
    proof (cases "int a < max_retries (config cl)")
      case True
      with Cons.prems(1) a Retry cl1 obtain w2 where
        "dispatch_loop env rid url params (Some key) attempts (Some e) cl w2 = (Inr data, cl', w')"
        by (auto split: sum.splits)
      then show ?thesis using Cons.IH Cons.prems(2) by blast
    next
      case False
      with Cons.prems(1) a Retry cl1 have
        "dispatch_loop env rid url params (Some key) attempts (Some e) cl w1 = (Inr data, cl', w')"
        by simp
      then show ?thesis using Cons.IH Cons.prems(2) by blast
    qed
  qed
qed

lemma map_of_moved: "map_of (od_delete k es @ [(k, e)]) k = Some e"
proof -
  have "k \<notin> fst ` set (od_delete k es)" by (simp add: keys_od_delete)
  then have "map_of (od_delete k es) k = None" by (simp add: map_of_eq_None_iff)
  then show ?thesis by (simp add: map_add_def)
qed

lemma cache_get_cases:
  assumes "cache_get c k t = (v, c1)"
  shows "default_ttl c1 = default_ttl c
     \<and> (v \<noteq> PNone \<longrightarrow> (\<exists>e. map_of (entries c) k = Some e \<and> \<not> is_expired e t \<and> v = entry_value e
            \<and> map_of (entries c1) k = Some e))"
  using assms
  by (auto simp: cache_get_def move_to_end_def map_of_moved simp del: map_of_append
      split: option.splits if_splits)

lemma make_request_hit:
  assumes key: "api_key (config cl) = Some key" "key \<noteq> []" and c: "cache cl = Some c"
    and e: "map_of (entries c) (make_key [PStr rid] (prepare_params key params)) = Some e"
    and fresh: "\<not> is_expired e (clock w)" and val: "entry_value e \<noteq> PNone"
  shows "\<exists>cl'. make_request env cl w rid params True = (Inr (entry_value e), cl', w)
      \<and> rate_limiter cl' = rate_limiter cl \<and> config cl' = config cl"
  using assms by (simp add: make_request_def Let_def cache_get_hit)

lemma rate_limit_and_dispatch_Inr:
  assumes "rate_limit_and_dispatch env cl w rid ps (Some k) = (Inr data, cl1, w1)"
    and "cache cl = Some c"
  shows "\<exists>c'. cache cl1 = Some c'
      \<and> map_of (entries c') k = Some (CacheEntry data (default_ttl c) (clock w1))
      \<and> config cl1 = config cl"
proof -
  obtain r rl w0 where wi: "wait_if_needed (rate_limiter cl) w = (r, rl, w0)"
    by (cases "wait_if_needed (rate_limiter cl) w") auto
  with assms(1) have r: "r = None"
    by (cases r) (auto simp: rate_limit_and_dispatch_def)
  with wi assms(1) have
    "dispatch_loop env rid (build_url env cl rid) ps (Some k)
       [0..<nat (max_retries (config cl) + 1)] None (cl\<lparr>rate_limiter := rl\<rparr>) w0 = (Inr data, cl1, w1)"
    by (simp add: rate_limit_and_dispatch_def)
  from dispatch_loop_Inr_cached [OF this, of c] assms(2) show ?thesis by auto
qed

text \<open>
  Claim C3, as the code has it. For a client with an API key and the cache enabled: if the
  cache holds an
  unexpired entry under the key computed for the request, and its payload is not \<open>None\<close>
  (payloads are JSON objects), the fetch returns that payload and leaves the world as it
  was (no GET, no sleep) and the rate limiter as it was. And whenever a fetch has returned a
  payload, the cache holds it under that key; its expiry is the instant of the return plus
  the default TTL when the fetch went to the network; and every identical fetch made at or
  before the expiry returns the same payload without any GET or change of the rate limiter.
\<close>

theorem cache_hit_skips_network:
  assumes key: "api_key (config cl) = Some key" "key \<noteq> []" and c: "cache cl = Some c"
  shows "(\<forall>e. map_of (entries c) (make_key [PStr rid] (prepare_params key params)) = Some e
             \<and> \<not> is_expired e (clock w) \<and> entry_value e \<noteq> PNone \<longrightarrow>
            (\<exists>cl'. make_request env cl w rid params True = (Inr (entry_value e), cl', w)
                \<and> rate_limiter cl' = rate_limiter cl))
       \<and> (\<forall>data cl1 w1. make_request env cl w rid params True = (Inr data, cl1, w1)
             \<and> data \<noteq> PNone \<longrightarrow>
            (\<exists>c1 e. cache cl1 = Some c1 \<and> config cl1 = config cl
               \<and> map_of (entries c1) (make_key [PStr rid] (prepare_params key params)) = Some e
               \<and> entry_value e = data
               \<and> (fst (cache_get c (make_key [PStr rid] (prepare_params key params)) (clock w)) = PNone
                    \<longrightarrow> expiry e = clock w1 + real_of_int (default_ttl c))
               \<and> (\<forall>w2. clock w2 \<le> expiry e \<longrightarrow>
                     (\<exists>cl2. make_request env cl1 w2 rid params True = (Inr data, cl2, w2)
                         \<and> rate_limiter cl2 = rate_limiter cl1))))"
proof -
  let ?K = "make_key [PStr rid] (prepare_params key params)"
  have partA: "\<exists>cl'. make_request env cl w rid params True = (Inr (entry_value e), cl', w)
                \<and> rate_limiter cl' = rate_limiter cl"
    if "map_of (entries c) ?K = Some e" "\<not> is_expired e (clock w)" "entry_value e \<noteq> PNone" for e
    using make_request_hit [OF key c that, of env] by blast
  have partB: "\<exists>c1 e. cache cl1 = Some c1 \<and> config cl1 = config cl
               \<and> map_of (entries c1) ?K = Some e \<and> entry_value e = data
               \<and> (fst (cache_get c ?K (clock w)) = PNone
                    \<longrightarrow> expiry e = clock w1 + real_of_int (default_ttl c))
               \<and> (\<forall>w2. clock w2 \<le> expiry e \<longrightarrow>
                     (\<exists>cl2. make_request env cl1 w2 rid params True = (Inr data, cl2, w2)
                         \<and> rate_limiter cl2 = rate_limiter cl1))"
    if first: "make_request env cl w rid params True = (Inr data, cl1, w1)" and dn: "data \<noteq> PNone"
    for data cl1 w1
  proof -
    obtain v c0 where g: "cache_get c ?K (clock w) = (v, c0)" by (cases "cache_get c ?K (clock w)")
    note gc = cache_get_cases [OF g]
    have stored: "\<exists>c1 e. cache cl1 = Some c1 \<and> map_of (entries c1) ?K = Some e \<and> entry_value e = data
        \<and> (v = PNone \<longrightarrow> expiry e = clock w1 + real_of_int (default_ttl c))
        \<and> config cl1 = config cl"
    proof (cases "v = PNone")
      case True
      with first key c g have
        "rate_limit_and_dispatch env (cl\<lparr>cache := Some c0\<rparr>) w rid (prepare_params key params) (Some ?K)
           = (Inr data, cl1, w1)"
        by (simp add: make_request_def Let_def)
      from rate_limit_and_dispatch_Inr [OF this, of c0] gc key show ?thesis
        by (auto simp: CacheEntry_def)
    next
      case False
      with first key c g have "data = v" "cl1 = cl\<lparr>cache := Some c0\<rparr>"
        by (simp_all add: make_request_def Let_def)
      with False gc key show ?thesis by auto
    qed
    then obtain c1 e where c1: "cache cl1 = Some c1" and m: "map_of (entries c1) ?K = Some e"
      and ev: "entry_value e = data"
      and ex: "v = PNone \<longrightarrow> expiry e = clock w1 + real_of_int (default_ttl c)"
      and cf: "config cl1 = config cl"
      by blast
    from cf key have k1: "api_key (config cl1) = Some key" by simp
    have again: "\<exists>cl2. make_request env cl1 w2 rid params True = (Inr data, cl2, w2)
                         \<and> rate_limiter cl2 = rate_limiter cl1"
      if "clock w2 \<le> expiry e" for w2
    proof -
      from that have "\<not> is_expired e (clock w2)" by (simp add: is_expired_def)
      from make_request_hit [OF k1 key(2) c1 m this, of env] ev dn show ?thesis by auto
    qed
    from c1 cf m ev ex again g show ?thesis by auto
  qed
  from partA partB show ?thesis by blast
qed

text \<open>
  The scenario of \<open>test_caching_works\<close>: cache enabled, a stub that answers 200 with
  \<open>{"records": [], "total": 0}\<close>. The first fetch makes one GET.
\<close>

lemma first_call:
  "\<exists>cl1 w1. make_request (stub_env [] (ok_response (PDict [(''records'', PList []), (''total'', PInt 0)])))
      (test_client True 2) start ''R'' (Some [(''offset'', PInt 0), (''limit'', PInt 10)]) True
    = (Inr (PDict [(''records'', PList []), (''total'', PInt 0)]), cl1, w1)
    \<and> clock w1 = 0 \<and> http_calls w1 = 1"
  by (simp add: make_request_def fixture_defs prepare_params_def od_assign_def setdefault_def
      cache_get_def Let_def rate_limit_and_dispatch_def wait_if_needed_def build_url_def
      attempt_once_def client_get_def cache_set_def ttl_or_default_def CacheEntry_def
      upt_conv_Cons)

text \<open>
  The theorem in that scenario: every second fetch within the 3600 seconds of the TTL, and
  the one made 100 seconds later in particular, returns the same payload without a GET.
\<close>

theorem cache_hit_skips_network_witness:
  "api_key (config (test_client True 2)) = Some ''test-key''
   \<and> cache (test_client True 2) = Some (new_cache 1000 3600)
   \<and> (\<exists>cl1 w1.
         make_request (stub_env [] (ok_response (PDict [(''records'', PList []), (''total'', PInt 0)])))
           (test_client True 2) start ''R'' (Some [(''offset'', PInt 0), (''limit'', PInt 10)]) True
         = (Inr (PDict [(''records'', PList []), (''total'', PInt 0)]), cl1, w1)
       \<and> http_calls w1 = 1
       \<and> (\<forall>w2. clock w2 \<le> 3600 \<longrightarrow>
            (\<exists>cl2. make_request
                      (stub_env [] (ok_response (PDict [(''records'', PList []), (''total'', PInt 0)])))
                      cl1 w2 ''R'' (Some [(''offset'', PInt 0), (''limit'', PInt 10)]) True
                    = (Inr (PDict [(''records'', PList []), (''total'', PInt 0)]), cl2, w2)
                \<and> rate_limiter cl2 = rate_limiter cl1))
       \<and> (\<exists>c1 e cl2. cache cl1 = Some c1
            \<and> map_of (entries c1) (make_key [PStr ''R'']
                   (prepare_params ''test-key'' (Some [(''offset'', PInt 0), (''limit'', PInt 10)])))
                = Some e
            \<and> \<not> is_expired e (clock (w1\<lparr>clock := 100\<rparr>))
            \<and> make_request
                  (stub_env [] (ok_response (PDict [(''records'', PList []), (''total'', PInt 0)])))
                  cl1 (w1\<lparr>clock := 100\<rparr>) ''R''
                  (Some [(''offset'', PInt 0), (''limit'', PInt 10)]) True
                = (Inr (PDict [(''records'', PList []), (''total'', PInt 0)]), cl2, w1\<lparr>clock := 100\<rparr>)))"
proof -
  let ?env = "stub_env [] (ok_response (PDict [(''records'', PList []), (''total'', PInt 0)]))"
  let ?cl = "test_client True 2"
  let ?ps = "Some [(''offset'', PInt 0), (''limit'', PInt 10)]"
  let ?data = "PDict [(''records'', PList []), (''total'', PInt 0)]"
  let ?K = "make_key [PStr ''R''] (prepare_params ''test-key'' ?ps)"
  have key: "api_key (config ?cl) = Some ''test-key''" "''test-key'' \<noteq> []"
    by (simp_all add: fixture_defs)
  have c: "cache ?cl = Some (new_cache 1000 3600)" by (simp add: fixture_defs)
  from first_call obtain cl1 w1 where
    first: "make_request ?env ?cl start ''R'' ?ps True = (Inr ?data, cl1, w1)"
    and t1: "clock w1 = 0" and h1: "http_calls w1 = 1"
    by blast
  have dn: "?data \<noteq> PNone" by simp
  have miss: "fst (cache_get (new_cache 1000 3600) ?K (clock start)) = PNone"
    by (simp add: cache_get_def new_cache_def)
  note th = cache_hit_skips_network [OF key c, of "''R''" ?ps start ?env]
  from th [THEN conjunct2, rule_format, of ?data cl1 w1] first dn
  obtain c1 e where c1: "cache cl1 = Some c1" and cf: "config cl1 = config ?cl"
    and m: "map_of (entries c1) ?K = Some e"
    and ev: "entry_value e = ?data"
    and ex: "fst (cache_get (new_cache 1000 3600) ?K (clock start)) = PNone
               \<longrightarrow> expiry e = clock w1 + real_of_int (default_ttl (new_cache 1000 3600))"
    and again: "\<forall>w2. clock w2 \<le> expiry e \<longrightarrow>
                 (\<exists>cl2. make_request ?env cl1 w2 ''R'' ?ps True = (Inr ?data, cl2, w2)
                     \<and> rate_limiter cl2 = rate_limiter cl1)"
    by blast
  from ex miss t1 have expiry: "expiry e = 3600" by (simp add: new_cache_def)
  from again expiry have twice: "\<forall>w2. clock w2 \<le> 3600 \<longrightarrow>
                 (\<exists>cl2. make_request ?env cl1 w2 ''R'' ?ps True = (Inr ?data, cl2, w2)
                     \<and> rate_limiter cl2 = rate_limiter cl1)"
    by simp
  have k1: "api_key (config cl1) = Some ''test-key''"
    using cf key(1) by simp
  have fresh: "\<not> is_expired e (clock (w1\<lparr>clock := 100\<rparr>))"
    using expiry by (simp add: is_expired_def)
  have val: "entry_value e \<noteq> PNone" using ev by simp
  from cache_hit_skips_network [OF k1 key(2) c1, of "''R''" ?ps "w1\<lparr>clock := 100\<rparr>" ?env,
      THEN conjunct1, rule_format, of e] m fresh val ev
  obtain cl2 where second: "make_request ?env cl1 (w1\<lparr>clock := 100\<rparr>) ''R'' ?ps True
      = (Inr ?data, cl2, w1\<lparr>clock := 100\<rparr>)"
    by auto
  from c1 m fresh second have last: "\<exists>c1 e cl2. cache cl1 = Some c1
            \<and> map_of (entries c1) ?K = Some e
            \<and> \<not> is_expired e (clock (w1\<lparr>clock := 100\<rparr>))
            \<and> make_request ?env cl1 (w1\<lparr>clock := 100\<rparr>) ''R'' ?ps True
                = (Inr ?data, cl2, w1\<lparr>clock := 100\<rparr>)"
    by blast
  from first h1 twice last have "\<exists>cl1 w1.
         make_request ?env ?cl start ''R'' ?ps True = (Inr ?data, cl1, w1)
       \<and> http_calls w1 = 1
       \<and> (\<forall>w2. clock w2 \<le> 3600 \<longrightarrow>
            (\<exists>cl2. make_request ?env cl1 w2 ''R'' ?ps True = (Inr ?data, cl2, w2)
                \<and> rate_limiter cl2 = rate_limiter cl1))
       \<and> (\<exists>c1 e cl2. cache cl1 = Some c1
            \<and> map_of (entries c1) ?K = Some e
            \<and> \<not> is_expired e (clock (w1\<lparr>clock := 100\<rparr>))
            \<and> make_request ?env cl1 (w1\<lparr>clock := 100\<rparr>) ''R'' ?ps True
                = (Inr ?data, cl2, w1\<lparr>clock := 100\<rparr>))"
    by blast
  with key(1) c show ?thesis by (intro conjI)
qed

text \<open>
  A fresh entry is not always returned, and two identical fetches within the TTL can make
  two GETs. When the body is the JSON value \<open>null\<close>, the payload \<open>None\<close> is cached, the
  second fetch finds the fresh entry, and \<open>if cached is not None\<close> sends it to the network
  again. When the first fetch succeeds only on its second attempt, the two fetches make two
  GETs although the second fetch is served from the cache.
\<close>

theorem cache_hit_counterexample:
  "(case make_request (stub_env [] (ok_response PNone)) (test_client True 2) start ''R''
           (Some [(''offset'', PInt 0), (''limit'', PInt 10)]) True of
      (r1, cl1, w1) \<Rightarrow>
        r1 = Inr PNone \<and> http_calls w1 = 1
        \<and> (\<exists>c e. cache cl1 = Some c
              \<and> map_of (entries c) (make_key [PStr ''R'']
                    (prepare_params ''test-key'' (Some [(''offset'', PInt 0), (''limit'', PInt 10)])))
                  = Some e
              \<and> \<not> is_expired e (clock w1))
        \<and> (case make_request (stub_env [] (ok_response PNone)) cl1 w1 ''R''
                   (Some [(''offset'', PInt 0), (''limit'', PInt 10)]) True of
              (r2, cl2, w2) \<Rightarrow> r2 = Inr PNone \<and> http_calls w2 = 2))
   \<and> (case make_request
           (stub_env [TimeoutException ''Timeout'']
              (ok_response (PDict [(''records'', PList []), (''total'', PInt 0)])))
           (test_client True 2) start ''R''
           (Some [(''offset'', PInt 0), (''limit'', PInt 10)]) True of
      (r1, cl1, w1) \<Rightarrow>
        r1 = Inr (PDict [(''records'', PList []), (''total'', PInt 0)])
        \<and> (case make_request
                   (stub_env [TimeoutException ''Timeout'']
                      (ok_response (PDict [(''records'', PList []), (''total'', PInt 0)])))
                   cl1 w1 ''R'' (Some [(''offset'', PInt 0), (''limit'', PInt 10)]) True of
              (r2, cl2, w2) \<Rightarrow>
                r2 = Inr (PDict [(''records'', PList []), (''total'', PInt 0)])
                \<and> http_calls w2 = 2))"
  by (simp add: run_defs)

section \<open>Properties of the cache key\<close>


lemma key_str_example:
  "key_str [PStr ''R''] [(''a'', PInt 1), (''b'', PInt 2)]
     = ''{\"args\": [\"R\"], \"kwargs\": [[\"a\", 1], [\"b\", 2]]}''"
  by code_simp






end
